theory Spec2Isabelle
  imports Main "HOL-Library.Word"
begin

unbundle bit_operations_syntax

section \<open>The MD5 digest used by \<^verbatim>\<open>generateMD5\<close>\<close>

text \<open>
  \<^verbatim>\<open>generateMD5\<close> calls Node's \<^verbatim>\<open>crypto.createHash('md5').update(s).digest('hex')\<close>.
  The digest is the RFC 1321 function over the UTF-8 bytes of the string, printed as 32
  lowercase hexadecimal digits. It is written out here on 32-bit words so that concrete
  signatures can be computed.
\<close>

type_synonym u32 = "32 word"
type_synonym byte = "8 word"

definition md5_s :: "nat list" where
  "md5_s = [7, 12, 17, 22, 7, 12, 17, 22, 7, 12, 17, 22, 7, 12, 17, 22,
            5, 9, 14, 20, 5, 9, 14, 20, 5, 9, 14, 20, 5, 9, 14, 20,
            4, 11, 16, 23, 4, 11, 16, 23, 4, 11, 16, 23, 4, 11, 16, 23,
            6, 10, 15, 21, 6, 10, 15, 21, 6, 10, 15, 21, 6, 10, 15, 21]"

definition md5_K :: "u32 list" where
  "md5_K = [0xd76aa478, 0xe8c7b756, 0x242070db, 0xc1bdceee, 0xf57c0faf, 0x4787c62a,
            0xa8304613, 0xfd469501, 0x698098d8, 0x8b44f7af, 0xffff5bb1, 0x895cd7be,
            0x6b901122, 0xfd987193, 0xa679438e, 0x49b40821, 0xf61e2562, 0xc040b340,
            0x265e5a51, 0xe9b6c7aa, 0xd62f105d, 0x02441453, 0xd8a1e681, 0xe7d3fbc8,
            0x21e1cde6, 0xc33707d6, 0xf4d50d87, 0x455a14ed, 0xa9e3e905, 0xfcefa3f8,
            0x676f02d9, 0x8d2a4c8a, 0xfffa3942, 0x8771f681, 0x6d9d6122, 0xfde5380c,
            0xa4beea44, 0x4bdecfa9, 0xf6bb4b60, 0xbebfbc70, 0x289b7ec6, 0xeaa127fa,
            0xd4ef3085, 0x04881d05, 0xd9d4d039, 0xe6db99e5, 0x1fa27cf8, 0xc4ac5665,
            0xf4292244, 0x432aff97, 0xab9423a7, 0xfc93a039, 0x655b59c3, 0x8f0ccc92,
            0xffeff47d, 0x85845dd1, 0x6fa87e4f, 0xfe2ce6e0, 0xa3014314, 0x4e0811a1,
            0xf7537e82, 0xbd3af235, 0x2ad7d2bb, 0xeb86d391]"

definition md5_round ::
  "u32 list \<Rightarrow> u32 \<times> u32 \<times> u32 \<times> u32 \<Rightarrow> nat \<Rightarrow> u32 \<times> u32 \<times> u32 \<times> u32" where
  "md5_round M st i =
     (case st of (a, b, c, d) \<Rightarrow>
       (let f = (if i < 16 then (b AND c) OR (NOT b AND d)
                 else if i < 32 then (d AND b) OR (NOT d AND c)
                 else if i < 48 then b XOR c XOR d
                 else c XOR (b OR NOT d));
            g = (if i < 16 then i
                 else if i < 32 then (5 * i + 1) mod 16
                 else if i < 48 then (3 * i + 5) mod 16
                 else (7 * i) mod 16);
            f' = f + a + md5_K ! i + M ! g
        in (d, b + word_rotl (md5_s ! i) f', b, c)))"

fun le_word :: "byte list \<Rightarrow> u32" where
  "le_word [] = 0"
| "le_word (b # bs) = ucast b + push_bit 8 (le_word bs)"

fun chunk_words :: "byte list \<Rightarrow> u32 list" where
  "chunk_words bs =
     (if length bs < 4 then [] else le_word (take 4 bs) # chunk_words (drop 4 bs))"

declare chunk_words.simps [simp del]

definition md5_block :: "u32 \<times> u32 \<times> u32 \<times> u32 \<Rightarrow> byte list \<Rightarrow> u32 \<times> u32 \<times> u32 \<times> u32" where
  "md5_block st blk =
     (case st of (a0, b0, c0, d0) \<Rightarrow>
        (case foldl (md5_round (chunk_words blk)) st [0..<64] of
           (a, b, c, d) \<Rightarrow> (a0 + a, b0 + b, c0 + c, d0 + d)))"

fun md5_blocks :: "u32 \<times> u32 \<times> u32 \<times> u32 \<Rightarrow> byte list \<Rightarrow> u32 \<times> u32 \<times> u32 \<times> u32" where
  "md5_blocks st bs =
     (if length bs < 64 then st else md5_blocks (md5_block st (take 64 bs)) (drop 64 bs))"

declare md5_blocks.simps [simp del]

definition le_bytes32 :: "u32 \<Rightarrow> byte list" where
  "le_bytes32 w = map (\<lambda>k. ucast (drop_bit (8 * k) w)) [0..<4]"

definition le_bytes64 :: "64 word \<Rightarrow> byte list" where
  "le_bytes64 w = map (\<lambda>k. ucast (drop_bit (8 * k) w)) [0..<8]"

definition md5_pad :: "byte list \<Rightarrow> byte list" where
  "md5_pad bs = bs @ [0x80] @ replicate ((119 - length bs mod 64) mod 64) 0
                  @ le_bytes64 (8 * word_of_nat (length bs))"

definition md5_digest :: "byte list \<Rightarrow> byte list" where
  "md5_digest bs =
     (case md5_blocks (0x67452301, 0xefcdab89, 0x98badcfe, 0x10325476) (md5_pad bs) of
        (a, b, c, d) \<Rightarrow> concat (map le_bytes32 [a, b, c, d]))"

definition hex_digit :: "byte \<Rightarrow> char" where
  "hex_digit n = ''0123456789abcdef'' ! unat n"

definition hex_byte :: "byte \<Rightarrow> string" where
  "hex_byte b = [hex_digit (drop_bit 4 b), hex_digit (b AND 0x0f)]"

text \<open>
  Strings are lists of 8-bit code units; \<^verbatim>\<open>update(signString)\<close> hashes their UTF-8
  encoding, one byte below \<open>0x80\<close> and two bytes from there on.
\<close>

definition utf8 :: "string \<Rightarrow> byte list" where
  "utf8 s = concat (map (\<lambda>c. let n = (of_char c :: byte) in
                if n < 0x80 then [n] else [0xc0 OR drop_bit 6 n, 0x80 OR (n AND 0x3f)]) s)"

definition md5_hex :: "string \<Rightarrow> string" where
  "md5_hex s = concat (map hex_byte (md5_digest (utf8 s)))"

section \<open>JavaScript values, \<^verbatim>\<open>String(n)\<close> and \<^verbatim>\<open>parseInt\<close>\<close>

text \<open>
  The fields typed \<^verbatim>\<open>number\<close> hold identifiers, amounts and codes; they are modelled by
  the integers they denote. \<^verbatim>\<open>String(n)\<close> prints an integer in decimal with a leading
  minus sign for negative values (JavaScript does so for every integer below \<^verbatim>\<open>1e21\<close> in
  absolute value).
\<close>

datatype jsval = JNum int | JStr string

definition digit_char :: "nat \<Rightarrow> char" where
  "digit_char n = ''0123456789'' ! n"

fun digits :: "nat \<Rightarrow> string" where
  "digits n = (if n < 10 then [digit_char n] else digits (n div 10) @ [digit_char (n mod 10)])"

declare digits.simps [simp del]

text \<open>The characters \<open>digits\<close> produces.\<close>

definition decimal :: "char \<Rightarrow> bool" where
  "decimal c = (c \<in> set ''0123456789'')"

definition Number_toString :: "int \<Rightarrow> string" where
  "Number_toString n = (if n < 0 then CHR ''-'' # digits (nat (- n)) else digits (nat n))"

fun ToString :: "jsval \<Rightarrow> string" where
  "ToString (JNum n) = Number_toString n"
| "ToString (JStr s) = s"

text \<open>
  An object literal keeps its string keys in insertion order; assigning to a key that is
  not yet present appends it, and \<^verbatim>\<open>Object.values\<close> lists the values in that order.
\<close>

type_synonym js_object = "(string \<times> jsval) list"

definition set_property :: "js_object \<Rightarrow> string \<Rightarrow> jsval \<Rightarrow> js_object" where
  "set_property obj k v =
     (if k \<in> set (map fst obj) then map (\<lambda>(k', v'). if k' = k then (k', v) else (k', v')) obj
      else obj @ [(k, v)])"

definition Object_values :: "js_object \<Rightarrow> jsval list" where
  "Object_values obj = map snd obj"

definition join :: "jsval list \<Rightarrow> string \<Rightarrow> string" where
  "join vs sep = (case vs of [] \<Rightarrow> []
                  | v # rest \<Rightarrow> ToString v @ concat (map (\<lambda>w. sep @ ToString w) rest))"

text \<open>
  \<^verbatim>\<open>parseInt(s)\<close> with no radix: leading white space is skipped, one sign is read, a
  \<^verbatim>\<open>0x\<close> prefix selects radix 16, and the longest prefix of digits is the value. No
  digit at all gives \<^verbatim>\<open>NaN\<close>, which is \<open>None\<close> here.
\<close>

definition is_space :: "char \<Rightarrow> bool" where
  "is_space c = (of_char c \<in> {9, 10, 11, 12, 13, 32, 160 :: nat})"

definition digit_value :: "char \<Rightarrow> nat option" where
  "digit_value c =
     (let n = (of_char c :: nat) in
      if 48 \<le> n \<and> n \<le> 57 then Some (n - 48)
      else if 97 \<le> n \<and> n \<le> 122 then Some (n - 87)
      else if 65 \<le> n \<and> n \<le> 90 then Some (n - 55)
      else None)"

definition is_digit :: "nat \<Rightarrow> char \<Rightarrow> bool" where
  "is_digit radix c = (case digit_value c of None \<Rightarrow> False | Some d \<Rightarrow> d < radix)"

definition digits_value :: "nat \<Rightarrow> string \<Rightarrow> nat" where
  "digits_value radix z =
     foldl (\<lambda>acc c. acc * radix + (case digit_value c of None \<Rightarrow> 0 | Some d \<Rightarrow> d)) 0 z"

text \<open>
  The value \<^verbatim>\<open>parseInt\<close> returns is a double. An integer up to \<open>2 ^ 53\<close> is kept as it is;
  a larger one is rounded to 53 significant bits, to the nearest and on a tie to the even
  one. From \<open>2 ^ 1024\<close> on the double is \<^verbatim>\<open>Infinity\<close>, which is written \<open>2 ^ 1024\<close>
  here, a value that no finite double has. The rounding is applied to the exact value of
  the digits, as Node does; ECMAScript fixes this for a decimal numeral of at most 20
  significant digits and for radix 16.
\<close>

fun bit_length :: "nat \<Rightarrow> nat" where
  "bit_length n = (if n = 0 then 0 else Suc (bit_length (n div 2)))"

declare bit_length.simps [simp del]

definition to_double :: "nat \<Rightarrow> nat" where
  "to_double m =
     (if m \<le> 2 ^ 53 then m
      else
        (let e = bit_length m - 53;
             q = m div 2 ^ e;
             r = m mod 2 ^ e;
             q' = (if 2 ^ e < 2 * r \<or> (2 * r = 2 ^ e \<and> odd q) then q + 1 else q)
         in if 2 ^ 1024 \<le> q' * 2 ^ e then 2 ^ 1024 else q' * 2 ^ e))"

definition parseInt :: "string \<Rightarrow> int option" where
  "parseInt s =
     (let s1 = dropWhile is_space s;
          sign = (if s1 \<noteq> [] \<and> hd s1 = CHR ''-'' then - 1 else 1 :: int);
          s2 = (if s1 \<noteq> [] \<and> (hd s1 = CHR ''+'' \<or> hd s1 = CHR ''-'') then tl s1 else s1);
          hex = (take 2 s2 = ''0x'' \<or> take 2 s2 = ''0X'');
          radix = (if hex then 16 else 10);
          s3 = (if hex then drop 2 s2 else s2);
          z = takeWhile (is_digit radix) s3
      in if z = [] then None else Some (sign * int (to_double (digits_value radix z))))"


section \<open>The types of \<^verbatim>\<open>types.ts\<close>\<close>

text \<open>
  \<^verbatim>\<open>ClickError\<close> and \<^verbatim>\<open>TransactionActions\<close> are numeric enums: their members are
  numbers, and \<^verbatim>\<open>createErrorResponse\<close> is also called with a number outside the enum.
\<close>

definition Success :: int where "Success = 0"
definition SignFailed :: int where "SignFailed = - 1"
definition InvalidAmount :: int where "InvalidAmount = - 2"
definition ActionNotFound :: int where "ActionNotFound = - 3"
definition AlreadyPaid :: int where "AlreadyPaid = - 4"
definition UserNotFound :: int where "UserNotFound = - 5"
definition TransactionNotFound :: int where "TransactionNotFound = - 6"
definition TransactionCanceled :: int where "TransactionCanceled = - 7"

definition Prepare :: int where "Prepare = 0"
definition Complete :: int where "Complete = 1"

record ClickRequestDTO =
  click_trans_id :: int
  service_id :: string
  click_paydoc_id :: string
  merchant_trans_id :: string
  merchant_prepare_id :: string
  amount :: int
  action :: int
  error :: string
  error_note :: string
  sign_time :: string
  sign_string :: string
  click_paydoc_type :: string

text \<open>
  \<^verbatim>\<open>ClickPrepareResponse | ClickCompleteResponse\<close>: one record, whose
  \<^verbatim>\<open>merchant_prepare_id\<close> is \<open>None\<close> when the object has no such property. The
  fields carry the prefix \<open>res_\<close> to keep them apart from those of the request.
\<close>

record ClickResponse =
  res_click_trans_id :: int
  res_merchant_trans_id :: string
  res_merchant_prepare_id :: "jsval option"
  res_error :: int
  res_error_note :: string

text \<open>
  The collaborators of \<^verbatim>\<open>ClickConfig\<close> are async functions: a call yields a promise
  that settles to a value or to a rejection, and an exception inside the collaborator is
  such a rejection. \<^verbatim>\<open>await\<close> hands the value on or throws the rejection.
\<close>

datatype 'a promise = Resolved 'a | Rejected string

text \<open>The result of \<^verbatim>\<open>checkOrder\<close>: \<^verbatim>\<open>{ exists: boolean; amount?: number }\<close>.\<close>

record OrderCheck =
  order_exists :: bool
  order_amount :: "int option"

text \<open>
  \<^verbatim>\<open>validate\<close> and \<^verbatim>\<open>handle\<close> are flattened into the configuration; an optional
  member is an \<open>option\<close>. \<^verbatim>\<open>onPrepare\<close> resolves to its \<^verbatim>\<open>prepare_id\<close>. Each
  collaborator is called at most once per request, with arguments taken from the
  request, so its outcome is a function of its arguments.
\<close>

record ClickConfig =
  serviceId :: string
  merchantId :: string
  secretKey :: string
  returnUrl :: "string option"
  checkOrder :: "string \<Rightarrow> OrderCheck promise"
  checkPayment :: "(string \<Rightarrow> bool promise) option"
  onPrepare :: "int \<Rightarrow> string \<Rightarrow> int \<Rightarrow> jsval promise"
  onSuccess :: "int \<Rightarrow> string \<Rightarrow> string \<Rightarrow> unit promise"
  onFail :: "(int \<Rightarrow> string \<Rightarrow> int \<Rightarrow> string \<Rightarrow> unit promise) option"

text \<open>
  What a handler does to its environment is the sequence of collaborator calls it makes.
  Every handler returns this sequence next to its result.
\<close>

datatype call =
    CheckOrder string
  | CheckPayment string
  | OnPrepare int string int
  | OnSuccess int string string
  | OnFail int string int string

fun is_OnPrepare :: "call \<Rightarrow> bool" where
  "is_OnPrepare (OnPrepare t m a) = True"
| "is_OnPrepare _ = False"


section \<open>The class \<^verbatim>\<open>ClickPayment\<close> of \<^verbatim>\<open>click.ts\<close>\<close>

definition generateMD5 :: "js_object \<Rightarrow> string" where
  "generateMD5 params = (let signString = join (Object_values params) '''' in md5_hex signString)"

definition validateSignString :: "ClickConfig \<Rightarrow> ClickRequestDTO \<Rightarrow> bool \<Rightarrow> bool" where
  "validateSignString cfg data includesPrepareId =
     (let md5Params =
            [(''clickTransId'', JNum (click_trans_id data)),
             (''serviceId'', JStr (service_id data)),
             (''secretKey'', JStr (secretKey cfg)),
             (''merchantTransId'', JStr (merchant_trans_id data)),
             (''amount'', JNum (amount data)),
             (''action'', JNum (action data)),
             (''signTime'', JStr (sign_time data))];
          md5Params' =
            (if includesPrepareId
             then set_property md5Params ''merchantPrepareId'' (JStr (merchant_prepare_id data))
             else md5Params);
          md5Hash = generateMD5 md5Params'
      in sign_string data = md5Hash)"

text \<open>
  \<^verbatim>\<open>createErrorResponse\<close> calls \<^verbatim>\<open>onFail\<close> when it is configured and does not await
  the promise: a rejection goes to \<^verbatim>\<open>console.error\<close> and the response is unaffected.
\<close>

definition createErrorResponse ::
  "ClickConfig \<Rightarrow> int \<Rightarrow> string \<Rightarrow> ClickRequestDTO \<Rightarrow> ClickResponse \<times> call list" where
  "createErrorResponse cfg err errorNote data =
     (\<lparr>res_click_trans_id = click_trans_id data,
       res_merchant_trans_id = merchant_trans_id data,
       res_merchant_prepare_id = (if action data = Prepare then Some (JStr '''') else None),
       res_error = err,
       res_error_note = errorNote\<rparr>,
      (case onFail cfg of
         None \<Rightarrow> []
       | Some f \<Rightarrow> [OnFail (click_trans_id data) (merchant_trans_id data) err errorNote]))"

text \<open>
  The body of a \<^verbatim>\<open>try\<close> block is a computation that ends in a returned response
  (\<open>Resolved\<close>) or in a thrown exception (\<open>Rejected\<close>), with the calls made so far.
  \<open>await\<close> records the call; on a rejection the rest of the block is skipped.
\<close>

type_synonym 'a traced = "'a promise \<times> call list"

definition returns :: "ClickResponse \<times> call list \<Rightarrow> ClickResponse traced" where
  "returns rc = (Resolved (fst rc), snd rc)"

definition await :: "call \<Rightarrow> 'a promise \<Rightarrow> ('a \<Rightarrow> 'b traced) \<Rightarrow> 'b traced" where
  "await c p k =
     (case p of
        Rejected e \<Rightarrow> (Rejected e, [c])
      | Resolved v \<Rightarrow> (case k v of (r, cs) \<Rightarrow> (r, c # cs)))"

definition try_catch ::
  "ClickResponse traced \<Rightarrow> (string \<Rightarrow> ClickResponse \<times> call list) \<Rightarrow> ClickResponse traced" where
  "try_catch body handler =
     (case body of
        (Resolved r, cs) \<Rightarrow> (Resolved r, cs)
      | (Rejected e, cs) \<Rightarrow> (case handler e of (r, cs') \<Rightarrow> (Resolved r, cs @ cs')))"

text \<open>The truthiness of \<^verbatim>\<open>order.amount\<close>: defined and not zero.\<close>

definition truthy :: "int option \<Rightarrow> bool" where
  "truthy a = (case a of None \<Rightarrow> False | Some n \<Rightarrow> n \<noteq> 0)"

text \<open>
  In \<^verbatim>\<open>prepare\<close>, step 5 (\<open>save\<close>) is reached either directly, when no
  \<^verbatim>\<open>checkPayment\<close> is configured, or after \<^verbatim>\<open>checkPayment\<close> resolved to false.
\<close>

definition prepare :: "ClickConfig \<Rightarrow> ClickRequestDTO \<Rightarrow> ClickResponse traced" where
  "prepare cfg data =
     try_catch
       (if \<not> validateSignString cfg data False
        then returns (createErrorResponse cfg SignFailed ''Invalid sign_string'' data)
        else
          await (CheckOrder (merchant_trans_id data)) (checkOrder cfg (merchant_trans_id data))
            (\<lambda>order.
              if \<not> order_exists order
              then returns (createErrorResponse cfg UserNotFound ''Order not found'' data)
              else if truthy (order_amount order) \<and> order_amount order \<noteq> Some (amount data)
              then returns (createErrorResponse cfg InvalidAmount ''Invalid amount'' data)
              else
                (let save =
                       await (OnPrepare (click_trans_id data) (merchant_trans_id data) (amount data))
                         (onPrepare cfg (click_trans_id data) (merchant_trans_id data) (amount data))
                         (\<lambda>prepare_id.
                           (Resolved
                              \<lparr>res_click_trans_id = click_trans_id data,
                               res_merchant_trans_id = merchant_trans_id data,
                               res_merchant_prepare_id = Some prepare_id,
                               res_error = Success,
                               res_error_note = ''Success''\<rparr>, []))
                 in case checkPayment cfg of
                      None \<Rightarrow> save
                    | Some check \<Rightarrow>
                        await (CheckPayment (merchant_trans_id data)) (check (merchant_trans_id data))
                          (\<lambda>isPaid.
                            if isPaid
                            then returns (createErrorResponse cfg AlreadyPaid ''Already paid'' data)
                            else save))))
       (\<lambda>e. createErrorResponse cfg UserNotFound ''Internal prepare error'' data)"

text \<open>
  In \<^verbatim>\<open>complete\<close>, \<^verbatim>\<open>parseInt(data.error) > 0\<close> is false when \<^verbatim>\<open>parseInt\<close> gives
  \<^verbatim>\<open>NaN\<close>; the error code passed on is the parsed number.
\<close>

definition complete :: "ClickConfig \<Rightarrow> ClickRequestDTO \<Rightarrow> ClickResponse traced" where
  "complete cfg data =
     try_catch
       (if \<not> validateSignString cfg data True
        then returns (createErrorResponse cfg SignFailed ''Invalid sign_string'' data)
        else
          await (CheckOrder (merchant_trans_id data)) (checkOrder cfg (merchant_trans_id data))
            (\<lambda>order.
              if \<not> order_exists order
              then returns (createErrorResponse cfg UserNotFound ''Order not found'' data)
              else
                (let update =
                       await (OnSuccess (click_trans_id data) (merchant_trans_id data)
                                (merchant_prepare_id data))
                         (onSuccess cfg (click_trans_id data) (merchant_trans_id data)
                            (merchant_prepare_id data))
                         (\<lambda>u.
                           (Resolved
                              \<lparr>res_click_trans_id = click_trans_id data,
                               res_merchant_trans_id = merchant_trans_id data,
                               res_merchant_prepare_id = None,
                               res_error = Success,
                               res_error_note = ''Success''\<rparr>, []))
                 in case parseInt (error data) of
                      None \<Rightarrow> update
                    | Some n \<Rightarrow>
                        if n > 0
                        then returns (createErrorResponse cfg n ''Click error'' data)
                        else update)))
       (\<lambda>e. createErrorResponse cfg UserNotFound ''Internal complete error'' data)"

text \<open>\<^verbatim>\<open>+data.action\<close> leaves a number as it is.\<close>

definition handleTransaction :: "ClickConfig \<Rightarrow> ClickRequestDTO \<Rightarrow> ClickResponse traced" where
  "handleTransaction cfg data =
     (let actionType = action data in
      if actionType = Prepare then prepare cfg data
      else if actionType = Complete then complete cfg data
      else returns (createErrorResponse cfg ActionNotFound ''Invalid action'' data))"

section \<open>The hashed string as the specification states it\<close>

text \<open>
  This definition follows the words of the specification, not the code: the canonical
  sequence is transaction id, service id, secret key, merchant order id, the prepare id
  when it is required (for Complete), then amount, action and sign time, concatenated
  with no delimiter. It is the order of the provider's protocol. It is compared with
  what \<^verbatim>\<open>validateSignString\<close> hashes.
\<close>

definition protocol_sign_input :: "ClickConfig \<Rightarrow> ClickRequestDTO \<Rightarrow> bool \<Rightarrow> string" where
  "protocol_sign_input cfg data requireReferenceId =
     Number_toString (click_trans_id data) @ service_id data @ secretKey cfg
       @ merchant_trans_id data
       @ (if requireReferenceId then merchant_prepare_id data else [])
       @ Number_toString (amount data) @ Number_toString (action data) @ sign_time data"

section \<open>Example configurations and requests\<close>

text \<open>
  A merchant in the style of the README: order \<^verbatim>\<open>O1\<close> exists with amount 1000, no
  \<^verbatim>\<open>checkPayment\<close>, \<^verbatim>\<open>onPrepare\<close> answers \<^verbatim>\<open>P1\<close>, no \<^verbatim>\<open>onFail\<close>.
\<close>

definition ex_config :: ClickConfig where
  "ex_config =
     \<lparr>serviceId = ''svc'', merchantId = ''m1'', secretKey = ''KEY'', returnUrl = None,
      checkOrder = (\<lambda>orderId. Resolved \<lparr>order_exists = True, order_amount = Some 1000\<rparr>),
      checkPayment = None,
      onPrepare = (\<lambda>t m a. Resolved (JStr ''P1'')),
      onSuccess = (\<lambda>t m p. Resolved ()),
      onFail = None\<rparr>"

definition ex_config_onFail :: ClickConfig where
  "ex_config_onFail = ex_config\<lparr>onFail := Some (\<lambda>t m e n. Resolved ())\<rparr>"

definition ex_config_zero_amount :: ClickConfig where
  "ex_config_zero_amount =
     ex_config\<lparr>checkOrder := (\<lambda>orderId. Resolved \<lparr>order_exists = True, order_amount = Some 0\<rparr>)\<rparr>"


definition ex_config_checkOrder_throws :: ClickConfig where
  "ex_config_checkOrder_throws =
     ex_config\<lparr>checkOrder := (\<lambda>orderId. Rejected ''connection lost'')\<rparr>"


text \<open>
  A Prepare request for order \<^verbatim>\<open>O1\<close>; its \<^verbatim>\<open>sign_string\<close> is the MD5 digest of
  \<^verbatim>\<open>1svcKEYO1100002024-01-01 10:00:00\<close>.
\<close>

definition ex_prepare :: ClickRequestDTO where
  "ex_prepare =
     \<lparr>click_trans_id = 1, service_id = ''svc'', click_paydoc_id = ''77'',
      merchant_trans_id = ''O1'', merchant_prepare_id = '''', amount = 1000, action = 0,
      error = ''0'', error_note = ''Success'', sign_time = ''2024-01-01 10:00:00'',
      sign_string = ''2b7509c737e356c4d2e7a57d9c33c986'', click_paydoc_type = ''1''\<rparr>"



definition ex_unknown_action :: ClickRequestDTO where
  "ex_unknown_action = ex_prepare\<lparr>action := 7\<rparr>"

text \<open>
  A Complete request for the same order, signed the way \<^verbatim>\<open>validateSignString\<close> builds
  the string: the digest of \<^verbatim>\<open>1svcKEYO1100012024-01-01 10:00:00P1\<close>.
\<close>

definition ex_complete :: ClickRequestDTO where
  "ex_complete =
     ex_prepare\<lparr>merchant_prepare_id := ''P1'', action := 1,
                sign_string := ''accb93cfad72dcfffc6995469eeb3818''\<rparr>"




text \<open>
  The same Complete request signed in the order of the specification: the digest of
  \<^verbatim>\<open>1svcKEYO1P1100012024-01-01 10:00:00\<close>.
\<close>

definition ex_complete_protocol :: ClickRequestDTO where
  "ex_complete_protocol = ex_complete\<lparr>sign_string := ''e789440a80f011f3f7254179f8c82285''\<rparr>"


section \<open>Which calls of a trace threw\<close>

text \<open>
  A recorded call threw when the collaborator's promise for these arguments is rejected.
  The promise of \<^verbatim>\<open>onFail\<close> is never awaited, so its rejection is not thrown into the
  handler.
\<close>

fun call_rejected :: "ClickConfig \<Rightarrow> call \<Rightarrow> bool" where
  "call_rejected cfg (CheckOrder orderId) =
     (case checkOrder cfg orderId of Rejected e \<Rightarrow> True | Resolved v \<Rightarrow> False)"
| "call_rejected cfg (CheckPayment orderId) =
     (case checkPayment cfg of
        None \<Rightarrow> False
      | Some check \<Rightarrow> (case check orderId of Rejected e \<Rightarrow> True | Resolved v \<Rightarrow> False))"
| "call_rejected cfg (OnPrepare t m a) =
     (case onPrepare cfg t m a of Rejected e \<Rightarrow> True | Resolved v \<Rightarrow> False)"
| "call_rejected cfg (OnSuccess t m p) =
     (case onSuccess cfg t m p of Rejected e \<Rightarrow> True | Resolved v \<Rightarrow> False)"
| "call_rejected cfg (OnFail t m e n) = False"

section \<open>The handlers when \<^verbatim>\<open>onFail\<close> may throw before it returns its promise\<close>

text \<open>
  \<^verbatim>\<open>createErrorResponse\<close> evaluates \<^verbatim>\<open>onFail({...})\<close> and attaches \<^verbatim>\<open>.catch(console.error)\<close>
  to the promise that the call returns. The definitions above take \<^verbatim>\<open>onFail\<close> as the async
  function of the README: the call always returns a promise. A function of the declared
  type \<^verbatim>\<open>(data) => Promise<void>\<close> that is not async may throw before it returns, and
  \<^verbatim>\<open>createErrorResponse\<close> has no \<^verbatim>\<open>try\<close> around the call. The definitions below add this
  case. \<open>throws t m e n\<close> is the exception that the call of \<^verbatim>\<open>onFail\<close> with these
  arguments throws before returning, if any; with \<open>None\<close> the call returns its promise.
  A thrown exception leaves \<^verbatim>\<open>createErrorResponse\<close>; inside a \<^verbatim>\<open>try\<close> block it reaches
  the \<^verbatim>\<open>catch\<close>, and thrown from the \<^verbatim>\<open>catch\<close> block or from the \<^verbatim>\<open>default\<close> branch of
  \<^verbatim>\<open>handleTransaction\<close> it rejects the promise of the async method.
\<close>

type_synonym onFail_throws = "int \<Rightarrow> string \<Rightarrow> int \<Rightarrow> string \<Rightarrow> string option"

definition createErrorResponse_general ::
  "ClickConfig \<Rightarrow> onFail_throws \<Rightarrow> int \<Rightarrow> string \<Rightarrow> ClickRequestDTO \<Rightarrow> ClickResponse traced" where
  "createErrorResponse_general cfg throws err errorNote data =
     (case onFail cfg of
        None \<Rightarrow> returns (createErrorResponse cfg err errorNote data)
      | Some f \<Rightarrow>
          (case throws (click_trans_id data) (merchant_trans_id data) err errorNote of
             Some e \<Rightarrow>
               (Rejected e, [OnFail (click_trans_id data) (merchant_trans_id data) err errorNote])
           | None \<Rightarrow> returns (createErrorResponse cfg err errorNote data)))"

definition try_catch_general ::
  "ClickResponse traced \<Rightarrow> (string \<Rightarrow> ClickResponse traced) \<Rightarrow> ClickResponse traced" where
  "try_catch_general body handler =
     (case body of
        (Resolved r, cs) \<Rightarrow> (Resolved r, cs)
      | (Rejected e, cs) \<Rightarrow> (case handler e of (p, cs') \<Rightarrow> (p, cs @ cs')))"

definition prepare_general ::
  "ClickConfig \<Rightarrow> onFail_throws \<Rightarrow> ClickRequestDTO \<Rightarrow> ClickResponse traced" where
  "prepare_general cfg throws data =
     try_catch_general
       (if \<not> validateSignString cfg data False
        then createErrorResponse_general cfg throws SignFailed ''Invalid sign_string'' data
        else
          await (CheckOrder (merchant_trans_id data)) (checkOrder cfg (merchant_trans_id data))
            (\<lambda>order.
              if \<not> order_exists order
              then createErrorResponse_general cfg throws UserNotFound ''Order not found'' data
              else if truthy (order_amount order) \<and> order_amount order \<noteq> Some (amount data)
              then createErrorResponse_general cfg throws InvalidAmount ''Invalid amount'' data
              else
                (let save =
                       await (OnPrepare (click_trans_id data) (merchant_trans_id data) (amount data))
                         (onPrepare cfg (click_trans_id data) (merchant_trans_id data) (amount data))
                         (\<lambda>prepare_id.
                           (Resolved
                              \<lparr>res_click_trans_id = click_trans_id data,
                               res_merchant_trans_id = merchant_trans_id data,
                               res_merchant_prepare_id = Some prepare_id,
                               res_error = Success,
                               res_error_note = ''Success''\<rparr>, []))
                 in case checkPayment cfg of
                      None \<Rightarrow> save
                    | Some check \<Rightarrow>
                        await (CheckPayment (merchant_trans_id data)) (check (merchant_trans_id data))
                          (\<lambda>isPaid.
                            if isPaid
                            then createErrorResponse_general cfg throws AlreadyPaid
                                   ''Already paid'' data
                            else save))))
       (\<lambda>e. createErrorResponse_general cfg throws UserNotFound ''Internal prepare error'' data)"

definition complete_general ::
  "ClickConfig \<Rightarrow> onFail_throws \<Rightarrow> ClickRequestDTO \<Rightarrow> ClickResponse traced" where
  "complete_general cfg throws data =
     try_catch_general
       (if \<not> validateSignString cfg data True
        then createErrorResponse_general cfg throws SignFailed ''Invalid sign_string'' data
        else
          await (CheckOrder (merchant_trans_id data)) (checkOrder cfg (merchant_trans_id data))
            (\<lambda>order.
              if \<not> order_exists order
              then createErrorResponse_general cfg throws UserNotFound ''Order not found'' data
              else
                (let update =
                       await (OnSuccess (click_trans_id data) (merchant_trans_id data)
                                (merchant_prepare_id data))
                         (onSuccess cfg (click_trans_id data) (merchant_trans_id data)
                            (merchant_prepare_id data))
                         (\<lambda>u.
                           (Resolved
                              \<lparr>res_click_trans_id = click_trans_id data,
                               res_merchant_trans_id = merchant_trans_id data,
                               res_merchant_prepare_id = None,
                               res_error = Success,
                               res_error_note = ''Success''\<rparr>, []))
                 in case parseInt (error data) of
                      None \<Rightarrow> update
                    | Some n \<Rightarrow>
                        if n > 0
                        then createErrorResponse_general cfg throws n ''Click error'' data
                        else update)))
       (\<lambda>e. createErrorResponse_general cfg throws UserNotFound ''Internal complete error'' data)"

definition handleTransaction_general ::
  "ClickConfig \<Rightarrow> onFail_throws \<Rightarrow> ClickRequestDTO \<Rightarrow> ClickResponse traced" where
  "handleTransaction_general cfg throws data =
     (let actionType = action data in
      if actionType = Prepare then prepare_general cfg throws data
      else if actionType = Complete then complete_general cfg throws data
      else createErrorResponse_general cfg throws ActionNotFound ''Invalid action'' data)"

text \<open>
  An \<^verbatim>\<open>onFail\<close> that throws before returning, and a merchant that has it configured and
  whose \<^verbatim>\<open>checkOrder\<close> throws.
\<close>

definition ex_onFail_throws :: onFail_throws where
  "ex_onFail_throws = (\<lambda>t m e n. Some ''notifier down'')"

definition ex_config_onFail_checkOrder_throws :: ClickConfig where
  "ex_config_onFail_checkOrder_throws =
     ex_config_onFail\<lparr>checkOrder := (\<lambda>orderId. Rejected ''connection lost'')\<rparr>"

section \<open>Auxiliary facts\<close>

lemmas ClickError_defs =
  Success_def SignFailed_def InvalidAmount_def ActionNotFound_def AlreadyPaid_def
  UserNotFound_def TransactionNotFound_def TransactionCanceled_def

lemmas TransactionActions_defs = Prepare_def Complete_def

lemmas handler_defs =
  handleTransaction_def prepare_def complete_def try_catch_def returns_def await_def
  createErrorResponse_def truthy_def Let_def ClickError_defs TransactionActions_defs

subsection \<open>The string that is hashed\<close>

text \<open>
  \<^verbatim>\<open>merchantPrepareId\<close> is assigned after the object literal is built, so it is the last
  key of \<^verbatim>\<open>md5Params\<close> and its value the last piece of the hashed string.
\<close>

lemma validateSignString_eq:
  "validateSignString cfg data includesPrepareId =
     (sign_string data =
        md5_hex (Number_toString (click_trans_id data) @ service_id data @ secretKey cfg
                 @ merchant_trans_id data @ Number_toString (amount data)
                 @ Number_toString (action data) @ sign_time data
                 @ (if includesPrepareId then merchant_prepare_id data else [])))"
  by (simp add: validateSignString_def generateMD5_def set_property_def Object_values_def
      join_def Let_def)

text \<open>Without the prepare id the hashed string is the one of the provider's protocol.\<close>

lemma validateSignString_prepare_protocol:
  "validateSignString cfg data False =
     (sign_string data = md5_hex (protocol_sign_input cfg data False))"
  by (simp add: validateSignString_eq protocol_sign_input_def)


subsection \<open>The digest has 32 characters\<close>

lemma length_md5_hex: "length (md5_hex s) = 32"
proof -
  have "length (md5_digest bs) = 16" for bs
    by (simp add: md5_digest_def le_bytes32_def split: prod.split)
  moreover have "length (concat (map hex_byte bs)) = 2 * length bs" for bs
    by (induction bs) (simp_all add: hex_byte_def)
  ultimately show ?thesis
    by (simp add: md5_hex_def)
qed

lemma validateSignString_length:
  "validateSignString cfg data b \<Longrightarrow> length (sign_string data) = 32"
  by (simp add: validateSignString_eq length_md5_hex)

subsection \<open>\<^verbatim>\<open>parseInt\<close> reads back what \<^verbatim>\<open>String\<close> prints\<close>


text \<open>An integer up to \<open>2 ^ 53\<close> is a double; the double of a positive integer is positive.\<close>

lemma to_double_exact: "m \<le> 2 ^ 53 \<Longrightarrow> to_double m = m"
  by (simp add: to_double_def)



lemma decimal_props:
  assumes "decimal c"
  shows "is_digit 10 c" "\<not> is_space c" "c \<noteq> CHR ''-''" "c \<noteq> CHR ''+''"
    "c \<noteq> CHR ''x''" "c \<noteq> CHR ''X''"
  using assms by (auto simp: decimal_def is_digit_def digit_value_def is_space_def)

lemma decimal_digit_char: "k < 10 \<Longrightarrow> decimal (digit_char k)"
  by (simp add: decimal_def digit_char_def del: set_simps)

lemma digit_value_digit_char_all:
  "list_all (\<lambda>k. digit_value (digit_char k) = Some k) [0..<10]"
  by code_simp

lemma digit_value_digit_char: "k < 10 \<Longrightarrow> digit_value (digit_char k) = Some k"
  using digit_value_digit_char_all by (simp add: list_all_iff)

lemma digits_decimal: "c \<in> set (digits n) \<Longrightarrow> decimal c"
proof (induction n rule: digits.induct)
  case (1 n)
  show ?case
  proof (cases "n < 10")
    case True
    with "1.prems" show ?thesis
      by (simp add: digits.simps [of n] decimal_digit_char)
  next
    case False
    with "1.prems" have "c \<in> set (digits (n div 10)) \<or> c = digit_char (n mod 10)"
      by (auto simp: digits.simps [of n])
    then show ?thesis
      using "1.IH" False by (auto simp: decimal_digit_char)
  qed
qed

lemma digits_nonempty: "digits n \<noteq> []"
  by (subst digits.simps) simp

lemma digits_value_snoc:
  "digits_value r (xs @ [c]) =
     digits_value r xs * r + (case digit_value c of None \<Rightarrow> 0 | Some d \<Rightarrow> d)"
  by (simp add: digits_value_def)

lemma digits_value_digits: "digits_value 10 (digits n) = n"
proof (induction n rule: digits.induct)
  case (1 n)
  show ?case
  proof (cases "n < 10")
    case True
    then show ?thesis
      by (simp add: digits.simps [of n] digits_value_def digit_value_digit_char)
  next
    case False
    then have "digits_value 10 (digits n) = digits_value 10 (digits (n div 10)) * 10 + n mod 10"
      by (simp add: digits.simps [of n] digits_value_snoc digit_value_digit_char)
    with "1.IH" False show ?thesis by simp
  qed
qed

lemma digits_no_hex_prefix: "take 2 (digits n) \<noteq> ''0x''" "take 2 (digits n) \<noteq> ''0X''"
proof -
  have "CHR ''x'' \<notin> set (digits n)" "CHR ''X'' \<notin> set (digits n)"
    using decimal_props(5,6) digits_decimal by blast+
  then have "CHR ''x'' \<notin> set (take 2 (digits n))" "CHR ''X'' \<notin> set (take 2 (digits n))"
    by (auto dest: in_set_takeD)
  then show "take 2 (digits n) \<noteq> ''0x''" "take 2 (digits n) \<noteq> ''0X''"
    by auto
qed

lemma takeWhile_digits: "takeWhile (is_digit 10) (digits n) = digits n"
  by (simp add: takeWhile_eq_all_conv digits_decimal decimal_props(1))

lemma parseInt_digits: "parseInt (digits n) = Some (int (to_double n))"
proof -
  have hd: "decimal (hd (digits n))"
    by (rule digits_decimal [of _ n]) (simp add: digits_nonempty)
  have sp: "dropWhile is_space (digits n) = digits n"
    using decimal_props(2) [OF hd] by (simp add: dropWhile_eq_self_iff)
  show ?thesis
    using decimal_props(3,4) [OF hd]
    by (simp add: parseInt_def Let_def sp digits_no_hex_prefix takeWhile_digits
        digits_nonempty digits_value_digits)
qed

lemma parseInt_minus_digits: "parseInt (CHR ''-'' # digits n) = Some (- int (to_double n))"
proof -
  have ms: "\<not> is_space CHR ''-''"
    by (simp add: is_space_def)
  show ?thesis
    by (simp add: parseInt_def Let_def ms digits_no_hex_prefix takeWhile_digits
        digits_nonempty digits_value_digits)
qed

text \<open>
  An \<^verbatim>\<open>error\<close> field that is the decimal rendering of an integer up to \<open>2 ^ 53\<close> in
  absolute value parses to that integer.
\<close>

lemma parseInt_Number_toString: "\<bar>n\<bar> \<le> 2 ^ 53 \<Longrightarrow> parseInt (Number_toString n) = Some n"
  by (simp add: Number_toString_def parseInt_digits parseInt_minus_digits to_double_exact
      nat_le_iff)

subsection \<open>Test vectors of RFC 1321\<close>

lemma md5_hex_empty: "md5_hex [] = ''d41d8cd98f00b204e9800998ecf8427e''"
  by code_simp

lemma md5_hex_abc: "md5_hex ''abc'' = ''900150983cd24fb0d6963f7d28e17f72''"
  by code_simp

text \<open>A message of two blocks.\<close>

lemma md5_hex_digits80:
  "md5_hex ''12345678901234567890123456789012345678901234567890123456789012345678901234567890''
     = ''57edf4a22be3c955ac49da2e2107b67a''"
  by code_simp

subsection \<open>Digests of the example requests\<close>

lemma md5_ex_prepare:
  "md5_hex ''1svcKEYO1100002024-01-01 10:00:00'' = ''2b7509c737e356c4d2e7a57d9c33c986''"
  by code_simp


lemma md5_ex_complete:
  "md5_hex ''1svcKEYO1100012024-01-01 10:00:00P1'' = ''accb93cfad72dcfffc6995469eeb3818''"
  by code_simp

lemma md5_ex_complete_protocol:
  "md5_hex ''1svcKEYO1P1100012024-01-01 10:00:00'' = ''e789440a80f011f3f7254179f8c82285''"
  by code_simp

lemma Number_toString_examples:
  "Number_toString 0 = ''0''" "Number_toString 1 = ''1''"
  "Number_toString 1000 = ''1000''" "Number_toString 2000 = ''2000''"
  by (simp_all add: Number_toString_def digit_char_def digits.simps)

lemma valid_ex_prepare:
  "secretKey cfg = ''KEY'' \<Longrightarrow> validateSignString cfg ex_prepare False"
  by (simp add: validateSignString_eq ex_prepare_def Number_toString_examples md5_ex_prepare)








lemma invalid_ex_complete_protocol:
  "secretKey cfg = ''KEY'' \<Longrightarrow> \<not> validateSignString cfg ex_complete_protocol True"
  by (simp add: validateSignString_eq ex_complete_protocol_def ex_complete_def ex_prepare_def
      Number_toString_examples md5_ex_complete)

lemma protocol_signed_ex_complete_protocol:
  "secretKey cfg = ''KEY'' \<Longrightarrow>
   sign_string ex_complete_protocol = md5_hex (protocol_sign_input cfg ex_complete_protocol True)"
  by (simp add: protocol_sign_input_def ex_complete_protocol_def ex_complete_def ex_prepare_def
      Number_toString_examples md5_ex_complete_protocol)


subsection \<open>The two models agree when \<^verbatim>\<open>onFail\<close> returns its promise\<close>

lemmas general_defs =
  handleTransaction_general_def prepare_general_def complete_general_def
  try_catch_general_def createErrorResponse_general_def

lemma createErrorResponse_general_async:
  "createErrorResponse_general cfg (\<lambda>t m e n. None) err errorNote data
     = returns (createErrorResponse cfg err errorNote data)"
  by (simp add: createErrorResponse_general_def split: option.splits)

lemma try_catch_general_returns:
  "try_catch_general body (\<lambda>e. returns (h e)) = try_catch body h"
  by (simp add: try_catch_general_def try_catch_def returns_def split: prod.splits promise.splits)

lemma prepare_general_async:
  "prepare_general cfg (\<lambda>t m e n. None) data = prepare cfg data"
  by (simp add: prepare_general_def prepare_def createErrorResponse_general_async
      try_catch_general_returns cong: if_cong option.case_cong)

lemma complete_general_async:
  "complete_general cfg (\<lambda>t m e n. None) data = complete cfg data"
  by (simp add: complete_general_def complete_def createErrorResponse_general_async
      try_catch_general_returns cong: if_cong option.case_cong)

lemma handleTransaction_general_async:
  "handleTransaction_general cfg (\<lambda>t m e n. None) data = handleTransaction cfg data"
  by (simp add: handleTransaction_general_def handleTransaction_def prepare_general_async
      complete_general_async createErrorResponse_general_async Let_def)

section \<open>The claims\<close>

subsection \<open>C1: the signature verifier\<close>

text \<open>
  Claim C1: the verifier hashes the stringified fields in the order transaction id,
  service id, secret key, merchant order id, then for Complete the prepare id, then
  amount, action and sign time, and succeeds exactly when the lowercase hexadecimal MD5
  digest equals the signature. On a Complete request the code hashes the prepare id last
  (\<open>validateSignString_eq\<close>). The request \<open>ex_complete_protocol\<close> is signed in the
  order of the claim; the verifier rejects it and the request is answered with \<open>-1\<close>.
\<close>

theorem C1_protocol_signed_complete_rejected:
  "sign_string ex_complete_protocol
     = md5_hex (protocol_sign_input ex_config ex_complete_protocol True)
   \<and> validateSignString ex_config ex_complete_protocol True = False
   \<and> handleTransaction ex_config ex_complete_protocol =
       (Resolved \<lparr>res_click_trans_id = 1, res_merchant_trans_id = ''O1'',
                  res_merchant_prepare_id = None,
                  res_error = - 1, res_error_note = ''Invalid sign_string''\<rparr>, [])"
proof -
  have k: "secretKey ex_config = ''KEY''"
    by (simp add: ex_config_def)
  have "\<not> validateSignString ex_config ex_complete_protocol True"
    by (rule invalid_ex_complete_protocol [OF k])
  moreover from this
  have "handleTransaction ex_config ex_complete_protocol =
       (Resolved \<lparr>res_click_trans_id = 1, res_merchant_trans_id = ''O1'',
                  res_merchant_prepare_id = None,
                  res_error = - 1, res_error_note = ''Invalid sign_string''\<rparr>, [])"
    by (simp add: handler_defs ex_complete_protocol_def ex_complete_def ex_prepare_def ex_config_def)
  ultimately show ?thesis
    using protocol_signed_ex_complete_protocol [OF k] by simp
qed

subsection \<open>C2: an invalid signature\<close>




subsection \<open>C3: an unknown action\<close>




subsection \<open>C4: an amount that differs\<close>




subsection \<open>C5: a collaborator that throws\<close>

text \<open>
  With \<^verbatim>\<open>onFail\<close> an async function, \<^verbatim>\<open>handleTransaction\<close> always resolves to a response,
  and when a call to \<^verbatim>\<open>checkOrder\<close>, \<^verbatim>\<open>checkPayment\<close>, \<^verbatim>\<open>onPrepare\<close> or \<^verbatim>\<open>onSuccess\<close>
  throws, the response is the well-formed error response with code \<open>-5\<close>.
\<close>

lemma collaborator_exception_async:
  "(\<exists>r. fst (handleTransaction cfg data) = Resolved r)
   \<and> (list_ex (call_rejected cfg) (snd (handleTransaction cfg data)) \<longrightarrow>
        (\<exists>r. fst (handleTransaction cfg data) = Resolved r
            \<and> res_error r = - 5
            \<and> res_click_trans_id r = click_trans_id data
            \<and> res_merchant_trans_id r = merchant_trans_id data
            \<and> res_merchant_prepare_id r = (if action data = 0 then Some (JStr '''') else None)
            \<and> res_error_note r =
                 (if action data = 0 then ''Internal prepare error''
                  else ''Internal complete error'')))"
  by (auto simp: handler_defs split: promise.splits option.splits prod.splits if_splits)

text \<open>
  Claim C5: when a call to \<^verbatim>\<open>checkOrder\<close>, \<^verbatim>\<open>checkPayment\<close>, \<^verbatim>\<open>onPrepare\<close> or
  \<^verbatim>\<open>onSuccess\<close> throws, the handler catches it and returns the error response \<open>-5\<close>, and
  \<^verbatim>\<open>handleTransaction\<close> never propagates a fault to its caller on any input. The code
  breaks this where \<^verbatim>\<open>onFail\<close> is configured and throws before it returns its promise:
  \<^verbatim>\<open>createErrorResponse\<close> catches only the rejection of that promise. In the Prepare
  request below \<^verbatim>\<open>checkOrder\<close> throws, the \<^verbatim>\<open>catch\<close> block calls \<^verbatim>\<open>createErrorResponse\<close>,
  \<^verbatim>\<open>onFail\<close> throws there, and the promise of \<^verbatim>\<open>handleTransaction\<close> is rejected: no
  response \<open>-5\<close> is returned. In the request with action 7 the \<^verbatim>\<open>default\<close> branch
  rejects in the same way.
\<close>

theorem C5_onFail_throw_propagates:
  "validateSignString ex_config_onFail_checkOrder_throws ex_prepare False
   \<and> handleTransaction_general ex_config_onFail_checkOrder_throws ex_onFail_throws ex_prepare =
       (Rejected ''notifier down'',
        [CheckOrder ''O1'', OnFail 1 ''O1'' (- 5) ''Internal prepare error''])
   \<and> handleTransaction_general ex_config_onFail ex_onFail_throws ex_unknown_action =
       (Rejected ''notifier down'', [OnFail 1 ''O1'' (- 3) ''Invalid action''])"
proof -
  have v: "validateSignString ex_config_onFail_checkOrder_throws ex_prepare False"
    by (simp add: valid_ex_prepare ex_config_onFail_checkOrder_throws_def ex_config_onFail_def
        ex_config_def)
  have p: "handleTransaction_general ex_config_onFail_checkOrder_throws ex_onFail_throws ex_prepare =
       (Rejected ''notifier down'',
        [CheckOrder ''O1'', OnFail 1 ''O1'' (- 5) ''Internal prepare error''])"
    using v
    by (simp add: general_defs await_def returns_def createErrorResponse_def
        ClickError_defs TransactionActions_defs Let_def ex_onFail_throws_def ex_prepare_def
        ex_config_onFail_checkOrder_throws_def ex_config_onFail_def ex_config_def)
  have d: "handleTransaction_general ex_config_onFail ex_onFail_throws ex_unknown_action =
       (Rejected ''notifier down'', [OnFail 1 ''O1'' (- 3) ''Invalid action''])"
    by (simp add: general_defs returns_def createErrorResponse_def
        ClickError_defs TransactionActions_defs Let_def ex_onFail_throws_def
        ex_unknown_action_def ex_prepare_def ex_config_onFail_def ex_config_def)
  from v p d show ?thesis
    by simp
qed

subsection \<open>C6: an error reported by the provider\<close>




subsection \<open>C7: an order that does not exist\<close>



subsection \<open>C8: scenario A\<close>

text \<open>
  Claim C8: the Prepare request with transaction id 1, order \<^verbatim>\<open>O1\<close>, amount 1000, action 0
  and a valid signature, where \<^verbatim>\<open>checkOrder\<close> answers \<^verbatim>\<open>{exists: true, amount: 1000}\<close>,
  \<^verbatim>\<open>checkPayment\<close> is not configured and \<^verbatim>\<open>onPrepare\<close> answers \<^verbatim>\<open>P1\<close>, is answered
  with exactly \<^verbatim>\<open>{1, "O1", "P1", 0, "Success"}\<close>.
\<close>

theorem C8_scenario_A:
  assumes "click_trans_id data = 1"
    and "merchant_trans_id data = ''O1''"
    and "amount data = 1000"
    and "action data = 0"
    and "validateSignString cfg data False"
    and "checkOrder cfg ''O1'' = Resolved \<lparr>order_exists = True, order_amount = Some 1000\<rparr>"
    and "checkPayment cfg = None"
    and "onPrepare cfg 1 ''O1'' 1000 = Resolved (JStr ''P1'')"
  shows "fst (handleTransaction cfg data) =
           Resolved \<lparr>res_click_trans_id = 1, res_merchant_trans_id = ''O1'',
                     res_merchant_prepare_id = Some (JStr ''P1''),
                     res_error = 0, res_error_note = ''Success''\<rparr>"
  using assms by (simp add: handler_defs)

theorem C8_scenario_A_witness:
  "click_trans_id ex_prepare = 1 \<and> merchant_trans_id ex_prepare = ''O1''
   \<and> amount ex_prepare = 1000 \<and> action ex_prepare = 0
   \<and> validateSignString ex_config ex_prepare False
   \<and> checkOrder ex_config ''O1'' = Resolved \<lparr>order_exists = True, order_amount = Some 1000\<rparr>
   \<and> checkPayment ex_config = None
   \<and> onPrepare ex_config 1 ''O1'' 1000 = Resolved (JStr ''P1'')
   \<and> fst (handleTransaction ex_config ex_prepare) =
       Resolved \<lparr>res_click_trans_id = 1, res_merchant_trans_id = ''O1'',
                 res_merchant_prepare_id = Some (JStr ''P1''),
                 res_error = 0, res_error_note = ''Success''\<rparr>"
proof -
  have d: "click_trans_id ex_prepare = 1" "merchant_trans_id ex_prepare = ''O1''"
    "amount ex_prepare = 1000" "action ex_prepare = 0"
    by (simp_all add: ex_prepare_def)
  have v: "validateSignString ex_config ex_prepare False"
    by (simp add: valid_ex_prepare ex_config_def)
  have c: "checkOrder ex_config ''O1'' = Resolved \<lparr>order_exists = True, order_amount = Some 1000\<rparr>"
    "checkPayment ex_config = None"
    "onPrepare ex_config 1 ''O1'' 1000 = Resolved (JStr ''P1'')"
    by (simp_all add: ex_config_def)
  show ?thesis
    using d v c C8_scenario_A [OF d v c] by simp
qed

subsection \<open>C9: an order amount of zero\<close>

text \<open>
  Claim C9: in a Prepare request for an order that exists with amount 0, the comparison
  with the amount of the request is skipped: the handler goes on to \<^verbatim>\<open>checkPayment\<close>
  (or, without it, to \<^verbatim>\<open>onPrepare\<close>), never answers \<open>-2\<close>, and succeeds when the order is
  not paid and \<^verbatim>\<open>onPrepare\<close> resolves, whatever the amount of the request.
\<close>

theorem C9_zero_order_amount:
  assumes "action data = 0"
    and "validateSignString cfg data False"
    and "checkOrder cfg (merchant_trans_id data) = Resolved ord"
    and "order_exists ord"
    and "order_amount ord = Some 0"
  shows "take 2 (snd (handleTransaction cfg data)) =
           [CheckOrder (merchant_trans_id data),
            (case checkPayment cfg of
               None \<Rightarrow> OnPrepare (click_trans_id data) (merchant_trans_id data) (amount data)
             | Some check \<Rightarrow> CheckPayment (merchant_trans_id data))]
         \<and> (\<forall>r. fst (handleTransaction cfg data) = Resolved r \<longrightarrow> res_error r \<noteq> - 2)
         \<and> ((checkPayment cfg = None
               \<or> (\<exists>check. checkPayment cfg = Some check
                     \<and> check (merchant_trans_id data) = Resolved False))
              \<and> onPrepare cfg (click_trans_id data) (merchant_trans_id data) (amount data)
                   = Resolved prepare_id \<longrightarrow>
              fst (handleTransaction cfg data) =
                Resolved \<lparr>res_click_trans_id = click_trans_id data,
                          res_merchant_trans_id = merchant_trans_id data,
                          res_merchant_prepare_id = Some prepare_id,
                          res_error = 0, res_error_note = ''Success''\<rparr>
              \<and> list_ex is_OnPrepare (snd (handleTransaction cfg data)))"
  using assms by (auto simp: handler_defs split: promise.splits option.splits)

text \<open>The witness: order amount 0, amount 1000 in the request.\<close>

theorem C9_zero_order_amount_witness:
  "action ex_prepare = 0
   \<and> validateSignString ex_config_zero_amount ex_prepare False
   \<and> checkOrder ex_config_zero_amount (merchant_trans_id ex_prepare)
       = Resolved \<lparr>order_exists = True, order_amount = Some 0\<rparr>
   \<and> amount ex_prepare = 1000
   \<and> checkPayment ex_config_zero_amount = None
   \<and> onPrepare ex_config_zero_amount (click_trans_id ex_prepare) (merchant_trans_id ex_prepare)
       (amount ex_prepare) = Resolved (JStr ''P1'')
   \<and> take 2 (snd (handleTransaction ex_config_zero_amount ex_prepare))
       = [CheckOrder ''O1'', OnPrepare 1 ''O1'' 1000]
   \<and> fst (handleTransaction ex_config_zero_amount ex_prepare) =
       Resolved \<lparr>res_click_trans_id = 1, res_merchant_trans_id = ''O1'',
                 res_merchant_prepare_id = Some (JStr ''P1''),
                 res_error = 0, res_error_note = ''Success''\<rparr>
   \<and> list_ex is_OnPrepare (snd (handleTransaction ex_config_zero_amount ex_prepare))"
proof -
  have a: "action ex_prepare = 0" "amount ex_prepare = 1000"
    by (simp_all add: ex_prepare_def)
  have v: "validateSignString ex_config_zero_amount ex_prepare False"
    by (simp add: valid_ex_prepare ex_config_zero_amount_def ex_config_def)
  have c: "checkOrder ex_config_zero_amount (merchant_trans_id ex_prepare)
             = Resolved \<lparr>order_exists = True, order_amount = Some 0\<rparr>"
    "checkPayment ex_config_zero_amount = None"
    "onPrepare ex_config_zero_amount (click_trans_id ex_prepare) (merchant_trans_id ex_prepare)
       (amount ex_prepare) = Resolved (JStr ''P1'')"
    by (simp_all add: ex_config_zero_amount_def ex_config_def)
  have i: "click_trans_id ex_prepare = 1" "merchant_trans_id ex_prepare = ''O1''"
    by (simp_all add: ex_prepare_def)
  show ?thesis
    using a v c
      C9_zero_order_amount [where cfg = ex_config_zero_amount and data = ex_prepare
        and prepare_id = "JStr ''P1''"
        and ord = "\<lparr>order_exists = True, order_amount = Some 0\<rparr>"]
    by (simp add: i)
qed

subsection \<open>C10: no error reported by the provider\<close>




end
